theory Spec2Isabelle
  imports Main "HOL-Library.Sublist"
begin

section \<open>The service worker \<open>sw.js\<close> of the PSE dashboard\<close>

text \<open>
  \<open>sw.js\<close> is a set of event listeners over the browser's service-worker host: the
  \<open>CacheStorage\<close> (named partitions of request/response pairs), \<open>fetch\<close>, the list of
  client pages, notifications and the worker's own life cycle.  The listeners are modelled
  as functions that take the host state (\<open>world\<close>) and the answer of the network, and
  return the settled promise, the new host state and the list of host calls they made.

  The host operations are not part of \<open>sw.js\<close>.  They are modelled after the Fetch and
  Service Worker standards, as far as the listeners can observe them:
  \<^item> \<open>fetch\<close> rejects when the network fails and otherwise resolves with the answer,
    whatever its status; the \<open>Headers\<close> of the answer have the guard "immutable";
  \<^item> \<open>Cache.put\<close> rejects with a \<open>TypeError\<close> when the scheme of the request is not
    http(s), its method is not \<open>GET\<close>, the status of the response is 206 or its \<open>Vary\<close>
    header has a \<open>*\<close>;
  \<^item> \<open>Cache.match\<close> finds nothing for a request that is not a \<open>GET\<close>, and hands out a
    hit as a \<open>Response\<close> whose \<open>Headers\<close> have the guard "immutable";
  \<^item> \<open>Response.clone\<close> keeps the guard, and \<open>Headers.append\<close> throws a \<open>TypeError\<close> on
    the guard "immutable";
  \<^item> \<open>caches.open\<close> creates a partition that does not exist.

  Left out are \<open>console.log\<close> and the faults of the environment other than a failing
  network (storage quota, a worker stopped in the middle of a handler).  Strings are the
  UTF-8 bytes of the JavaScript strings.
\<close>

subsection \<open>JavaScript values\<close>

text \<open>Values that reach the listeners from outside (message data, notification data).
  Numbers are integers here: fractions and NaN do not occur in any comparison of \<open>sw.js\<close>.\<close>

datatype jsval =
    JUndefined
  | JNull
  | JBool bool
  | JNum int
  | JStr string
  | JObj "(string \<times> jsval) list"

datatype cause = Failed_to_fetch | Put_unsupported | Headers_immutable | Property_of_nullish

text \<open>Every exception the model knows is a JavaScript \<open>TypeError\<close>; the cause tells where
  it was thrown.\<close>

datatype js_error = TypeError cause

datatype 'a promise = Resolved 'a | Rejected js_error

fun truthy :: "jsval \<Rightarrow> bool" where
  "truthy JUndefined = False"
| "truthy JNull = False"
| "truthy (JBool b) = b"
| "truthy (JNum n) = (n \<noteq> 0)"
| "truthy (JStr s) = (s \<noteq> [])"
| "truthy (JObj fs) = True"

text \<open>Reading a property \<open>v.name\<close>: throws on \<open>null\<close> and \<open>undefined\<close>, is \<open>undefined\<close> on
  a primitive (for the names \<open>type\<close> and \<open>url\<close> read here) and on an object without it.\<close>

fun get_prop :: "jsval \<Rightarrow> string \<Rightarrow> js_error + jsval" where
  "get_prop JUndefined name = Inl (TypeError Property_of_nullish)"
| "get_prop JNull name = Inl (TypeError Property_of_nullish)"
| "get_prop (JObj fs) name = Inr (case map_of fs name of None \<Rightarrow> JUndefined | Some v \<Rightarrow> v)"
| "get_prop v name = Inr JUndefined"

subsection \<open>Requests and responses\<close>

text \<open>The fields of a \<open>Request\<close> that \<open>sw.js\<close> and the cache read; \<open>http_method\<close> is
  \<open>request.method\<close>.\<close>

record request =
  url :: string
  http_method :: string
  destination :: string

text \<open>The guard of the \<open>Headers\<close> object of a \<open>Response\<close>: \<open>Immutable\<close> on a response
  that \<open>fetch\<close> or a cache hands out, \<open>Response_guard\<close> on one made by \<open>new Response\<close>.\<close>

datatype guard = Immutable | Response_guard

record response =
  status :: nat
  statusText :: string
  headers :: "(string \<times> string) list"
  body :: string
  guard :: guard

definition ok :: "response \<Rightarrow> bool" where
  "ok r = (200 \<le> status r \<and> status r \<le> 299)"

text \<open>\<open>response.clone()\<close>: the same status, headers, body and guard (no body has been read
  where \<open>sw.js\<close> clones).\<close>

definition clone :: "response \<Rightarrow> response" where
  "clone r = r"

definition lower_char :: "char \<Rightarrow> char" where
  "lower_char c =
     (case map_of (zip ''ABCDEFGHIJKLMNOPQRSTUVWXYZ'' ''abcdefghijklmnopqrstuvwxyz'') c of
        None \<Rightarrow> c
      | Some l \<Rightarrow> l)"

definition lower :: "string \<Rightarrow> string" where
  "lower s = map lower_char s"

definition has_header :: "string \<Rightarrow> (string \<times> string) list \<Rightarrow> bool" where
  "has_header name hs = (lower name \<in> set (map (lower \<circ> fst) hs))"

text \<open>\<open>headers.append(name, value)\<close>: throws on an immutable guard; on a response guard a
  forbidden response-header name is ignored.\<close>

definition Headers_append :: "response \<Rightarrow> string \<Rightarrow> string \<Rightarrow> js_error + response" where
  "Headers_append r name v =
     (if guard r = Immutable then Inl (TypeError Headers_immutable)
      else if lower name \<in> {''set-cookie'', ''set-cookie2''} then Inr r
      else Inr (r\<lparr>headers := headers r @ [(name, v)]\<rparr>))"

text \<open>\<open>new Response(body, {status, statusText, headers})\<close> with a string body: a
  \<open>Content-Type\<close> is added unless the headers given have one.\<close>

definition new_Response :: "string \<Rightarrow> nat \<Rightarrow> string \<Rightarrow> (string \<times> string) list \<Rightarrow> response" where
  "new_Response b st txt hs =
     \<lparr>status = st, statusText = txt,
      headers = (if has_header ''Content-Type'' hs then hs
                 else hs @ [(''content-type'', ''text/plain;charset=UTF-8'')]),
      body = b, guard = Response_guard\<rparr>"

subsection \<open>URLs\<close>

text \<open>\<open>request.url\<close> is a serialised absolute URL.  \<open>scheme_of\<close> and \<open>hostname_of\<close> read
  the scheme and the host off it, as \<open>new URL(request.url)\<close> does for such a string.\<close>

definition scheme_of :: "string \<Rightarrow> string" where
  "scheme_of u = takeWhile (\<lambda>c. c \<noteq> CHR '':'') u"

fun after_last_at :: "string \<Rightarrow> string \<Rightarrow> string" where
  "after_last_at acc [] = acc"
| "after_last_at acc (c # cs) = (if c = CHR ''@'' then after_last_at cs cs else after_last_at acc cs)"

definition hostname_of :: "string \<Rightarrow> string" where
  "hostname_of u =
     (let rest = drop (length (scheme_of u)) u in
      if take 3 rest \<noteq> ''://'' then []
      else
        let authority = takeWhile (\<lambda>c. c \<notin> {CHR ''/'', CHR ''?'', CHR ''#''}) (drop 3 rest);
            hostport = after_last_at authority authority
        in if take 1 hostport = ''[''
           then takeWhile (\<lambda>c. c \<noteq> CHR '']'') hostport @ '']''
           else takeWhile (\<lambda>c. c \<noteq> CHR '':'') hostport)"

subsection \<open>The host state\<close>

text \<open>A cache partition is a list of entries keyed by the URL of the request, compared as
  a string.  Only \<open>GET\<close> requests can be stored, so the method is not part of the key.
  The secondary key that a \<open>Vary\<close> header adds compares headers of the stored and of the
  looked-up request; the listeners only look up the request they store or stored, so it
  is not modelled.  The \<open>CacheStorage\<close> is the list of named partitions in creation
  order.\<close>

type_synonym cache = "(string \<times> response) list"

datatype lifecycle = Installing | Waiting | Active

text \<open>\<open>clients\<close> are the client pages that \<open>clients.matchAll()\<close> resolves with, by
  number; \<open>lifecycle\<close> is the state of this worker.\<close>

record world =
  caches :: "(string \<times> cache) list"
  clients :: "nat list"
  lifecycle :: lifecycle

type_synonym network = "request \<Rightarrow> response option"

datatype effect =
    CachesOpen string
  | CachesKeys
  | CachesDelete string
  | CacheMatch string string
  | CachePut string string response
  | Fetch request
  | ClientsClaim
  | ClientsMatchAll
  | PostMessage nat jsval
  | NotificationClose
  | OpenWindow jsval
  | SkipWaiting
  | SyncRegister string

definition fetches :: "effect list \<Rightarrow> request list" where
  "fetches tr = concat (map (\<lambda>e. case e of Fetch r \<Rightarrow> [r] | _ \<Rightarrow> []) tr)"

definition puts :: "effect list \<Rightarrow> (string \<times> string \<times> response) list" where
  "puts tr = concat (map (\<lambda>e. case e of CachePut n k r \<Rightarrow> [(n, k, r)] | _ \<Rightarrow> []) tr)"

definition posts :: "effect list \<Rightarrow> (nat \<times> jsval) list" where
  "posts tr = concat (map (\<lambda>e. case e of PostMessage c m \<Rightarrow> [(c, m)] | _ \<Rightarrow> []) tr)"

definition windows :: "effect list \<Rightarrow> jsval list" where
  "windows tr = concat (map (\<lambda>e. case e of OpenWindow u \<Rightarrow> [u] | _ \<Rightarrow> []) tr)"

text \<open>\<open>fetch(request)\<close>: rejects when the network fails, otherwise resolves with the
  answer, whatever its status, under an immutable guard.\<close>

definition fetch :: "network \<Rightarrow> request \<Rightarrow> response promise" where
  "fetch net req =
     (case net req of
        None \<Rightarrow> Rejected (TypeError Failed_to_fetch)
      | Some r \<Rightarrow> Resolved (r\<lparr>guard := Immutable\<rparr>))"

text \<open>\<open>fetch(url)\<close> and \<open>cache.put(url, ...)\<close> with a string make a \<open>GET\<close> request of it.\<close>

definition Request_of :: "string \<Rightarrow> request" where
  "Request_of u = \<lparr>url = u, http_method = ''GET'', destination = []\<rparr>"

text \<open>\<open>caches.open(name)\<close> creates the partition when there is none of that name.\<close>

definition caches_open :: "string \<Rightarrow> world \<Rightarrow> world" where
  "caches_open name w =
     (case map_of (caches w) name of
        None \<Rightarrow> w\<lparr>caches := caches w @ [(name, [])]\<rparr>
      | Some c \<Rightarrow> w)"

definition caches_keys :: "world \<Rightarrow> string list" where
  "caches_keys w = map fst (caches w)"

definition caches_delete :: "string \<Rightarrow> world \<Rightarrow> world" where
  "caches_delete name w = w\<lparr>caches := filter (\<lambda>p. fst p \<noteq> name) (caches w)\<rparr>"

text \<open>\<open>cache.match(request)\<close>: \<open>undefined\<close> (here \<open>None\<close>) for a request that is not a
  \<open>GET\<close> and on a miss; on a hit a response with an immutable guard.\<close>

definition cache_match :: "string \<Rightarrow> request \<Rightarrow> world \<Rightarrow> response option" where
  "cache_match name req w =
     (if http_method req \<noteq> ''GET'' then None
      else case map_of (caches w) name of
             None \<Rightarrow> None
           | Some c \<Rightarrow> map_option (\<lambda>r. r\<lparr>guard := Immutable\<rparr>) (map_of c (url req)))"

text \<open>The field values of the \<open>Vary\<close> headers of a response, split at commas and trimmed.\<close>

fun split_commas :: "string \<Rightarrow> string \<Rightarrow> string list" where
  "split_commas acc [] = [acc]"
| "split_commas acc (c # cs) =
     (if c = CHR '','' then acc # split_commas [] cs else split_commas (acc @ [c]) cs)"

definition is_space :: "char \<Rightarrow> bool" where
  "is_space c = (c = CHR '' '' \<or> c = CHR 0x09)"

definition trim :: "string \<Rightarrow> string" where
  "trim s = rev (dropWhile is_space (rev (dropWhile is_space s)))"

definition vary_values :: "response \<Rightarrow> string list" where
  "vary_values r =
     concat (map (\<lambda>h. map trim (split_commas [] (snd h)))
                 (filter (\<lambda>h. lower (fst h) = ''vary'') (headers r)))"

text \<open>\<open>cache.put(request, response)\<close> rejects with a \<open>TypeError\<close> when the scheme is not
  http(s), the method is not \<open>GET\<close>, the status is 206 or \<open>Vary\<close> has a \<open>*\<close>.\<close>

definition put_rejected :: "request \<Rightarrow> response \<Rightarrow> bool" where
  "put_rejected req r =
     (scheme_of (url req) \<notin> {''http'', ''https''} \<or> http_method req \<noteq> ''GET''
      \<or> status r = 206 \<or> ''*'' \<in> set (vary_values r))"

text \<open>Otherwise it replaces the entry of the same key in the partition.\<close>

definition cache_store :: "string \<Rightarrow> response \<Rightarrow> cache \<Rightarrow> cache" where
  "cache_store k r c = filter (\<lambda>e. fst e \<noteq> k) c @ [(k, r)]"

definition cache_put :: "string \<Rightarrow> request \<Rightarrow> response \<Rightarrow> world \<Rightarrow> js_error + world" where
  "cache_put name req r w =
     (if put_rejected req r then Inl (TypeError Put_unsupported)
      else Inr (w\<lparr>caches :=
                  map (\<lambda>p. if fst p = name then (name, cache_store (url req) r (snd p)) else p)
                      (caches w)\<rparr>))"

subsection \<open>Constants of \<open>sw.js\<close>\<close>

definition CACHE_NAME :: string where
  "CACHE_NAME = ''pse-dashboard-v1''"

definition API_CACHE_NAME :: string where
  "API_CACHE_NAME = ''pse-api-cache-v1''"

definition API_HOST :: string where
  "API_HOST = ''api.raporty.pse.pl''"

definition REFRESH_URL :: string where
  "REFRESH_URL = ''https://api.raporty.pse.pl/api/pk5l-wp?$first=200''"

subsection \<open>\<open>JSON.stringify\<close>\<close>

definition hex_digit :: "nat \<Rightarrow> char" where
  "hex_digit n = ''0123456789abcdef'' ! (n mod 16)"

definition json_escape :: "char \<Rightarrow> string" where
  "json_escape c =
     (let n = (of_char c :: nat) in
      if n = 0x22 then [CHR 0x5C, CHR 0x22]
      else if n = 0x5C then [CHR 0x5C, CHR 0x5C]
      else if n = 8 then [CHR 0x5C, CHR ''b'']
      else if n = 9 then [CHR 0x5C, CHR ''t'']
      else if n = 10 then [CHR 0x5C, CHR ''n'']
      else if n = 12 then [CHR 0x5C, CHR ''f'']
      else if n = 13 then [CHR 0x5C, CHR ''r'']
      else if n < 32 then [CHR 0x5C, CHR ''u'', CHR ''0'', CHR ''0'', hex_digit (n div 16), hex_digit n]
      else [c])"

definition json_quote :: "string \<Rightarrow> string" where
  "json_quote s = [CHR 0x22] @ concat (map json_escape s) @ [CHR 0x22]"

fun decimal :: "nat \<Rightarrow> string" where
  "decimal n = (if n < 10 then [hex_digit n] else decimal (n div 10) @ [hex_digit (n mod 10)])"

fun join :: "string \<Rightarrow> string list \<Rightarrow> string" where
  "join sep [] = []"
| "join sep [x] = x"
| "join sep (x # y # ys) = x @ sep @ join sep (y # ys)"

text \<open>\<open>JSON.stringify(v)\<close>: \<open>None\<close> is JavaScript's \<open>undefined\<close>; a property whose value
  is \<open>undefined\<close> is left out of an object.\<close>

fun JSON_stringify :: "jsval \<Rightarrow> string option"
  and json_members :: "(string \<times> jsval) list \<Rightarrow> string list" where
  "JSON_stringify JUndefined = None"
| "JSON_stringify JNull = Some ''null''"
| "JSON_stringify (JBool b) = Some (if b then ''true'' else ''false'')"
| "JSON_stringify (JNum n) = Some (if n < 0 then ''-'' @ decimal (nat (- n)) else decimal (nat n))"
| "JSON_stringify (JStr s) = Some (json_quote s)"
| "JSON_stringify (JObj fs) = Some (''{'' @ join '','' (json_members fs) @ ''}'')"
| "json_members [] = []"
| "json_members (f # fs) =
     (case JSON_stringify (snd f) of
        None \<Rightarrow> json_members fs
      | Some t \<Rightarrow> (json_quote (fst f) @ '':'' @ t) # json_members fs)"

subsection \<open>The fixed payloads\<close>

text \<open>The object of line 99 to 103.  Its texts are Polish: "Brak polaczenia
  internetowego" and "Nie mozna pobrac danych. Sprawdz polaczenie internetowe.", written
  here with the UTF-8 bytes of their diacritics.\<close>

definition api_error_object :: jsval where
  "api_error_object =
     JObj [(''error'', JStr (''Brak po'' @ [CHR 0xC5, CHR 0x82, CHR 0xC4, CHR 0x85] @ ''czenia internetowego'')),
           (''message'', JStr (''Nie mo'' @ [CHR 0xC5, CHR 0xBC] @ ''na pobra'' @ [CHR 0xC4, CHR 0x87] @ '' danych. Sprawd'' @ [CHR 0xC5, CHR 0xBA] @ '' po'' @ [CHR 0xC5, CHR 0x82, CHR 0xC4, CHR 0x85] @ ''czenie internetowe.'')),
           (''cached'', JBool False)]"

text \<open>The texts an object carries: the string values of its properties.\<close>

definition object_texts :: "jsval \<Rightarrow> string list" where
  "object_texts v =
     (case v of
        JObj fs \<Rightarrow> concat (map (\<lambda>f. case snd f of JStr s \<Rightarrow> [s] | _ \<Rightarrow> []) fs)
      | _ \<Rightarrow> [])"

text \<open>The message of line 263 to 266 ("Dane zostaly zaktualizowane w tle").\<close>

definition DATA_UPDATED :: jsval where
  "DATA_UPDATED =
     JObj [(''type'', JStr ''DATA_UPDATED''),
           (''message'', JStr (''Dane zosta'' @ [CHR 0xC5, CHR 0x82] @ ''y zaktualizowane w tle''))]"

definition indent :: "nat \<Rightarrow> string \<Rightarrow> string" where
  "indent n s = replicate n (CHR '' '') @ s"

text \<open>The template literal of line 142 to 183, line by line: it starts with a line break
  and ends with the twelve blanks before the closing backquote.\<close>

definition offline_lines :: "string list" where
  "offline_lines =
    [indent 0 [],
     indent 16 ''<!DOCTYPE html>'',
     indent 16 ''<html>'',
     indent 16 ''<head>'',
     indent 20 (''<meta charset='' @ [CHR 0x22] @ ''UTF-8'' @ [CHR 0x22] @ ''>''),
     indent 20 (''<meta name='' @ [CHR 0x22] @ ''viewport'' @ [CHR 0x22] @ '' content='' @ [CHR 0x22] @ ''width=device-width, initial-scale=1.0'' @ [CHR 0x22] @ ''>''),
     indent 20 ''<title>PSE Dashboard - Offline</title>'',
     indent 20 ''<style>'',
     indent 24 ''body {'',
     indent 28 (''font-family: -apple-system, BlinkMacSystemFont, '' @ [CHR 0x27] @ ''SF Pro Display'' @ [CHR 0x27] @ '', sans-serif;''),
     indent 28 ''background: linear-gradient(135deg, #c0392b 0%, #e74c3c 100%);'',
     indent 28 ''color: white;'',
     indent 28 ''text-align: center;'',
     indent 28 ''padding: 50px 20px;'',
     indent 28 ''margin: 0;'',
     indent 28 ''min-height: 100vh;'',
     indent 28 ''display: flex;'',
     indent 28 ''flex-direction: column;'',
     indent 28 ''justify-content: center;'',
     indent 24 ''}'',
     indent 24 ''h1 { font-size: 24px; margin-bottom: 20px; }'',
     indent 24 ''p { font-size: 16px; margin-bottom: 30px; opacity: 0.9; }'',
     indent 24 ''button {'',
     indent 28 ''background: white;'',
     indent 28 ''color: #c0392b;'',
     indent 28 ''border: none;'',
     indent 28 ''padding: 12px 24px;'',
     indent 28 ''border-radius: 8px;'',
     indent 28 ''font-size: 16px;'',
     indent 28 ''font-weight: 600;'',
     indent 28 ''cursor: pointer;'',
     indent 24 ''}'',
     indent 20 ''</style>'',
     indent 16 ''</head>'',
     indent 16 ''<body>'',
     indent 20 (''<h1>'' @ [CHR 0xF0, CHR 0x9F, CHR 0x93, CHR 0xB1] @ '' PSE Dashboard</h1>''),
     indent 20 (''<h2>'' @ [CHR 0xF0, CHR 0x9F, CHR 0x94, CHR 0x8C] @ '' Tryb Offline</h2>''),
     indent 20 (''<p>Nie mo'' @ [CHR 0xC5, CHR 0xBC] @ ''na po'' @ [CHR 0xC5, CHR 0x82, CHR 0xC4, CHR 0x85] @ ''czy'' @ [CHR 0xC4, CHR 0x87] @ '' si'' @ [CHR 0xC4, CHR 0x99] @ '' z internetem.<br>Sprawd'' @ [CHR 0xC5, CHR 0xBA] @ '' po'' @ [CHR 0xC5, CHR 0x82, CHR 0xC4, CHR 0x85] @ ''czenie i spr'' @ [CHR 0xC3, CHR 0xB3] @ ''buj ponownie.</p>''),
     indent 20 (''<button onclick='' @ [CHR 0x22] @ ''window.location.reload()'' @ [CHR 0x22] @ ''>'' @ [CHR 0xF0, CHR 0x9F, CHR 0x94, CHR 0x84] @ '' Spr'' @ [CHR 0xC3, CHR 0xB3] @ ''buj ponownie</button>''),
     indent 16 ''</body>'',
     indent 16 ''</html>'',
     indent 12 []]"

definition offline_page :: string where
  "offline_page = join [CHR 0x0A] offline_lines"

subsection \<open>The fetch listener (line 53 to 191)\<close>

text \<open>The response of line 98 to 112.  \<open>JSON.stringify\<close> of an object is never
  \<open>undefined\<close>; the empty body stands for that case.\<close>

definition api_error_response :: response where
  "api_error_response =
     new_Response (case JSON_stringify api_error_object of None \<Rightarrow> [] | Some s \<Rightarrow> s)
       503 ''Service Unavailable''
       [(''Content-Type'', ''application/json''), (''X-Served-From'', ''error'')]"

text \<open>The \<open>catch\<close> block of \<open>handleApiRequest\<close> (line 81 to 113).  An exception thrown
  inside it is not caught by anything: the promise of the handler rejects.\<close>

definition api_catch :: "request \<Rightarrow> world \<Rightarrow> response promise" where
  "api_catch request w =
     (case cache_match API_CACHE_NAME request w of
        Some cachedResponse \<Rightarrow>
          (case Headers_append (clone cachedResponse) ''X-Served-From'' ''cache'' of
             Inl e \<Rightarrow> Rejected e
           | Inr response \<Rightarrow> Resolved response)
      | None \<Rightarrow> Resolved api_error_response)"

text \<open>\<open>handleApiRequest\<close> (line 66 to 114).  Both \<open>fetch\<close> and \<open>cache.put\<close> are awaited
  inside the \<open>try\<close>, so a rejection of either enters the \<open>catch\<close> block.\<close>

definition handleApiRequest ::
  "network \<Rightarrow> request \<Rightarrow> world \<Rightarrow> response promise \<times> world \<times> effect list" where
  "handleApiRequest net request w =
     (let w1 = caches_open API_CACHE_NAME w;
          tr1 = [CachesOpen API_CACHE_NAME, Fetch request];
          lookup = [CacheMatch API_CACHE_NAME (url request)]
      in case fetch net request of
           Rejected e \<Rightarrow> (api_catch request w1, w1, tr1 @ lookup)
         | Resolved networkResponse \<Rightarrow>
             if ok networkResponse then
               (let responseClone = clone networkResponse;
                    tr2 = tr1 @ [CachePut API_CACHE_NAME (url request) responseClone]
                in case cache_put API_CACHE_NAME request responseClone w1 of
                     Inl e \<Rightarrow> (api_catch request w1, w1, tr2 @ lookup)
                   | Inr w2 \<Rightarrow> (Resolved networkResponse, w2, tr2))
             else (Resolved networkResponse, w1, tr1))"

text \<open>The \<open>catch\<close> block of \<open>handleStaticRequest\<close> (line 137 to 190).\<close>

definition static_catch :: "request \<Rightarrow> response" where
  "static_catch request =
     (if destination request = ''document''
      then new_Response offline_page 200 [] [(''Content-Type'', ''text/html'')]
      else new_Response ''Service Unavailable'' 503 [] [])"

text \<open>\<open>handleStaticRequest\<close> (line 117 to 191).\<close>

definition handleStaticRequest ::
  "network \<Rightarrow> request \<Rightarrow> world \<Rightarrow> response promise \<times> world \<times> effect list" where
  "handleStaticRequest net request w =
     (let w1 = caches_open CACHE_NAME w;
          tr1 = [CachesOpen CACHE_NAME, CacheMatch CACHE_NAME (url request)]
      in case cache_match CACHE_NAME request w1 of
           Some cachedResponse \<Rightarrow> (Resolved cachedResponse, w1, tr1)
         | None \<Rightarrow>
             (let tr2 = tr1 @ [Fetch request]
              in case fetch net request of
                   Rejected e \<Rightarrow> (Resolved (static_catch request), w1, tr2)
                 | Resolved networkResponse \<Rightarrow>
                     if ok networkResponse then
                       (let tr3 = tr2 @ [CachePut CACHE_NAME (url request) (clone networkResponse)]
                        in case cache_put CACHE_NAME request (clone networkResponse) w1 of
                             Inl e \<Rightarrow> (Resolved (static_catch request), w1, tr3)
                           | Inr w2 \<Rightarrow> (Resolved networkResponse, w2, tr3))
                     else (Resolved networkResponse, w1, tr2)))"

text \<open>The listener itself (line 53 to 63): what \<open>event.respondWith\<close> is given.\<close>

definition on_fetch ::
  "network \<Rightarrow> request \<Rightarrow> world \<Rightarrow> response promise \<times> world \<times> effect list" where
  "on_fetch net request w =
     (if hostname_of (url request) = API_HOST then handleApiRequest net request w
      else handleStaticRequest net request w)"

subsection \<open>The activate listener (line 32 to 50)\<close>

text \<open>The callback of \<open>cacheNames.map\<close>, run over the names that \<open>caches.keys()\<close> gave.\<close>

fun delete_old :: "string list \<Rightarrow> world \<Rightarrow> world \<times> effect list" where
  "delete_old [] w = (w, [])"
| "delete_old (cacheName # rest) w =
     (if cacheName \<noteq> CACHE_NAME \<and> cacheName \<noteq> API_CACHE_NAME
      then (let (w', tr) = delete_old rest (caches_delete cacheName w)
            in (w', CachesDelete cacheName # tr))
      else delete_old rest w)"

definition on_activate :: "world \<Rightarrow> unit promise \<times> world \<times> effect list" where
  "on_activate w =
     (let cacheNames = caches_keys w;
          (w1, tr) = delete_old cacheNames w
      in (Resolved (), w1, [CachesKeys] @ tr @ [ClientsClaim]))"

subsection \<open>The notificationclick listener (line 226 to 237)\<close>

record notificationclick =
  action :: string
  notification_data :: jsval

text \<open>\<open>event.action\<close> is a string, falsy when empty.  The listener is synchronous: an
  exception of \<open>event.notification.data.url\<close> leaves it after the notification was
  closed.\<close>

definition on_notificationclick :: "notificationclick \<Rightarrow> unit promise \<times> effect list" where
  "on_notificationclick event =
     (if action event = ''open'' \<or> action event = []
      then (case get_prop (notification_data event) ''url'' of
              Inl e \<Rightarrow> (Rejected e, [NotificationClose])
            | Inr u \<Rightarrow>
                (Resolved (), [NotificationClose, OpenWindow (if truthy u then u else JStr ''/'')]))
      else (Resolved (), [NotificationClose]))"

subsection \<open>The sync listener and the background refresh (line 240 to 272)\<close>

text \<open>\<open>refreshDataInBackground\<close>: the whole body is in a \<open>try\<close> whose \<open>catch\<close> only logs.\<close>

definition refreshDataInBackground ::
  "network \<Rightarrow> world \<Rightarrow> unit promise \<times> world \<times> effect list" where
  "refreshDataInBackground net w =
     (let tr1 = [Fetch (Request_of REFRESH_URL)]
      in case fetch net (Request_of REFRESH_URL) of
           Rejected e \<Rightarrow> (Resolved (), w, tr1)
         | Resolved response \<Rightarrow>
             if ok response then
               (let w1 = caches_open API_CACHE_NAME w;
                    tr2 = tr1 @ [CachesOpen API_CACHE_NAME,
                                 CachePut API_CACHE_NAME REFRESH_URL (clone response)]
                in case cache_put API_CACHE_NAME (Request_of REFRESH_URL) (clone response) w1 of
                     Inl e \<Rightarrow> (Resolved (), w1, tr2)
                   | Inr w2 \<Rightarrow>
                       (Resolved (), w2,
                        tr2 @ [ClientsMatchAll]
                            @ map (\<lambda>client. PostMessage client DATA_UPDATED) (clients w2)))
             else (Resolved (), w, tr1))"

definition on_sync :: "network \<Rightarrow> string \<Rightarrow> world \<Rightarrow> unit promise \<times> world \<times> effect list" where
  "on_sync net tag w =
     (if tag = ''refresh-data'' then refreshDataInBackground net w else (Resolved (), w, []))"

subsection \<open>The message listener (line 275 to 286)\<close>

text \<open>\<open>self.skipWaiting()\<close>: the host activates the worker if it is waiting.\<close>

definition skipWaiting :: "world \<Rightarrow> world" where
  "skipWaiting w = (case lifecycle w of Waiting \<Rightarrow> w\<lparr>lifecycle := Active\<rparr> | _ \<Rightarrow> w)"

text \<open>\<open>event.data && event.data.type === t\<close>: the property is read only of a truthy value.\<close>

definition data_type_is :: "jsval \<Rightarrow> string \<Rightarrow> bool" where
  "data_type_is d t = (truthy d \<and> get_prop d ''type'' = Inr (JStr t))"

definition on_message :: "jsval \<Rightarrow> world \<Rightarrow> world \<times> effect list" where
  "on_message d w =
     (let (w1, tr1) = (if data_type_is d ''SKIP_WAITING'' then (skipWaiting w, [SkipWaiting])
                       else (w, []));
          tr2 = (if data_type_is d ''REQUEST_UPDATE'' then [SyncRegister ''refresh-data''] else [])
      in (w1, tr1 @ tr2))"

subsection \<open>What the partitions hold\<close>

text \<open>All entries of all partitions, as (partition, key, response).\<close>

definition cache_entries :: "world \<Rightarrow> (string \<times> string \<times> response) list" where
  "cache_entries w = concat (map (\<lambda>p. map (\<lambda>e. (fst p, fst e, snd e)) (snd p)) (caches w))"

definition all_ok :: "world \<Rightarrow> bool" where
  "all_ok w = (\<forall>e \<in> set (cache_entries w). ok (snd (snd e)))"

subsection \<open>Example inputs\<close>

definition online :: "response \<Rightarrow> network" where
  "online r req = Some r"

definition offline :: network where
  "offline req = None"

definition example_data :: response where
  "example_data =
     \<lparr>status = 200, statusText = ''OK'', headers = [(''Content-Type'', ''application/json'')],
      body = ''[]'', guard = Immutable\<rparr>"

definition example_vary_star :: response where
  "example_vary_star =
     \<lparr>status = 200, statusText = ''OK'',
      headers = [(''Content-Type'', ''application/json''), (''Vary'', ''*'')],
      body = ''[]'', guard = Immutable\<rparr>"

definition example_not_found :: response where
  "example_not_found =
     \<lparr>status = 404, statusText = ''Not Found'', headers = [], body = [], guard = Immutable\<rparr>"

definition example_page :: response where
  "example_page =
     \<lparr>status = 200, statusText = ''OK'', headers = [(''Content-Type'', ''text/html'')],
      body = ''<html></html>'', guard = Immutable\<rparr>"

definition api_get :: request where
  "api_get = \<lparr>url = REFRESH_URL, http_method = ''GET'', destination = []\<rparr>"

definition api_post :: request where
  "api_post = \<lparr>url = REFRESH_URL, http_method = ''POST'', destination = []\<rparr>"

definition page_get :: request where
  "page_get = \<lparr>url = ''https://dashboard.example/index.html'', http_method = ''GET'',
               destination = ''document''\<rparr>"

definition fresh_world :: world where
  "fresh_world = \<lparr>caches = [], clients = [1, 2], lifecycle = Waiting\<rparr>"

definition used_world :: world where
  "used_world =
     \<lparr>caches = [(''pse-dashboard-v0'', [(''https://dashboard.example/index.html'', example_page)]),
                (CACHE_NAME, [(''https://dashboard.example/index.html'', example_page)]),
                (API_CACHE_NAME, [(REFRESH_URL, example_data)])],
      clients = [1, 2], lifecycle = Active\<rparr>"

definition click_dismiss :: notificationclick where
  "click_dismiss = \<lparr>action = ''dismiss'', notification_data = JObj [(''url'', JStr ''/alerts'')]\<rparr>"

definition click_body :: notificationclick where
  "click_body = \<lparr>action = [], notification_data = JObj [(''url'', JStr ''/alerts'')]\<rparr>"

definition click_open_no_url :: notificationclick where
  "click_open_no_url = \<lparr>action = ''open'', notification_data = JObj []\<rparr>"

definition click_close :: notificationclick where
  "click_close = \<lparr>action = ''close'', notification_data = JObj [(''url'', JStr ''/alerts'')]\<rparr>"

section \<open>Facts about the host operations\<close>

lemma fetch_guard: "fetch net req = Resolved r \<Longrightarrow> guard r = Immutable"
  by (auto simp: fetch_def split: option.splits)

lemma Headers_append_Response_guard:
  "guard r = Response_guard \<Longrightarrow>
     Headers_append r ''X-Served-From'' ''cache'' =
       Inr (r\<lparr>headers := headers r @ [(''X-Served-From'', ''cache'')]\<rparr>)"
  by (simp add: Headers_append_def lower_def lower_char_def)

lemma map_of_open: "map_of (caches (caches_open m w)) n =
   (if n = m \<and> map_of (caches w) m = None then Some [] else map_of (caches w) n)"
  by (auto simp: caches_open_def map_add_def split: option.splits)

lemma cache_match_open: "cache_match n req (caches_open m w) = cache_match n req w"
  by (simp add: cache_match_def map_of_open)

lemma cache_match_Some_open: "cache_match n req w = Some r \<Longrightarrow> caches_open n w = w"
  by (auto simp: cache_match_def caches_open_def split: if_splits option.splits)

lemma map_of_update_partition:
  "map_of (map (\<lambda>p. if fst p = n then (n, f (snd p)) else p) cs) m =
     (if m = n then map_option f (map_of cs n) else map_of cs m)"
  by (induction cs) auto

lemma map_of_cache_store: "map_of (cache_store k r c) k = Some r"
  by (induction c) (auto simp: cache_store_def map_add_def)

lemma cache_put_Inr:
  "cache_put n req r w = Inr w' \<longleftrightarrow>
     \<not> put_rejected req r \<and>
     w' = w\<lparr>caches := map (\<lambda>p. if fst p = n then (n, cache_store (url req) r (snd p)) else p) (caches w)\<rparr>"
  by (auto simp: cache_put_def)

lemma cache_put_Inl: "cache_put n req r w = Inl e \<Longrightarrow> put_rejected req r"
  by (simp add: cache_put_def split: if_splits)

lemma cache_put_match:
  assumes "cache_put n req r (caches_open n w) = Inr w'"
  shows "cache_match n req w' = Some (r\<lparr>guard := Immutable\<rparr>)"
proof -
  from assms have get: "http_method req = ''GET''"
    by (simp add: cache_put_Inr put_rejected_def)
  obtain c where c: "map_of (caches (caches_open n w)) n = Some c"
    by (cases "map_of (caches w) n") (auto simp: map_of_open)
  have "map_of (caches w') n = Some (cache_store (url req) r c)"
    using assms c
    by (simp add: cache_put_Inr map_of_update_partition [where f = "cache_store (url req) r"])
  then show ?thesis
    by (simp add: cache_match_def get map_of_cache_store)
qed

text \<open>Entries of the partitions: opening a partition adds none, a store adds at most the
  one it was given, and a hit is an entry.\<close>

lemma cache_entries_open: "cache_entries (caches_open n w) = cache_entries w"
  by (simp add: cache_entries_def caches_open_def split: option.splits)

lemma cache_entries_put:
  assumes "cache_put n req r w = Inr w'"
  shows "set (cache_entries w') \<subseteq> insert (n, url req, r) (set (cache_entries w))"
proof -
  have "set (concat (map (\<lambda>p. map (\<lambda>e. (fst p, fst e, snd e)) (snd p))
               (map (\<lambda>p. if fst p = n then (n, cache_store k r (snd p)) else p) cs)))
        \<subseteq> insert (n, k, r) (set (concat (map (\<lambda>p. map (\<lambda>e. (fst p, fst e, snd e)) (snd p)) cs)))"
    for k cs
    by (induction cs) (auto simp: cache_store_def)
  with assms show ?thesis
    by (simp add: cache_put_Inr cache_entries_def)
qed

lemma cache_match_entry:
  assumes "cache_match n req w = Some c"
  shows "\<exists>r. (n, url req, r) \<in> set (cache_entries w) \<and> c = r\<lparr>guard := Immutable\<rparr>"
proof -
  from assms obtain es r where es: "map_of (caches w) n = Some es"
    and r: "map_of es (url req) = Some r" and c: "c = r\<lparr>guard := Immutable\<rparr>"
    by (auto simp: cache_match_def split: if_splits option.splits)
  from es have "(n, es) \<in> set (caches w)" by (rule map_of_SomeD)
  moreover from r have "(url req, r) \<in> set es" by (rule map_of_SomeD)
  ultimately have "(n, url req, r) \<in> set (cache_entries w)"
    by (force simp: cache_entries_def)
  with c show ?thesis by blast
qed

lemma all_ok_match: "all_ok w \<Longrightarrow> cache_match n req w = Some c \<Longrightarrow> ok c"
  by (auto simp: all_ok_def ok_def dest!: cache_match_entry)

lemma entries_invariant:
  assumes "\<forall>e \<in> set (cache_entries v). e \<in> set (cache_entries w) \<or> ok (snd (snd e))"
  shows "all_ok w \<longrightarrow> all_ok v \<and> (\<forall>n q c. cache_match n q v = Some c \<longrightarrow> ok c)"
proof
  assume "all_ok w"
  with assms have "all_ok v" by (auto simp: all_ok_def)
  then show "all_ok v \<and> (\<forall>n q c. cache_match n q v = Some c \<longrightarrow> ok c)"
    by (blast intro: all_ok_match)
qed

text \<open>Reading the host calls off a trace.\<close>

lemma posts_map: "posts (map (\<lambda>client. PostMessage client m) cs) = map (\<lambda>c. (c, m)) cs"
  by (induction cs) (simp_all add: posts_def)

lemma fetches_map: "fetches (map (\<lambda>client. PostMessage client m) cs) = []"
  by (induction cs) (simp_all add: fetches_def)

lemma puts_map: "puts (map (\<lambda>client. PostMessage client m) cs) = []"
  by (induction cs) (simp_all add: puts_def)

lemma fetches_append: "fetches (xs @ ys) = fetches xs @ fetches ys"
  by (simp add: fetches_def)

lemma puts_append: "puts (xs @ ys) = puts xs @ puts ys"
  by (simp add: puts_def)

lemma posts_append: "posts (xs @ ys) = posts xs @ posts ys"
  by (simp add: posts_def)

text \<open>Finding a text in the lines of a page.\<close>

lemma sublist_join: "x \<in> set xs \<Longrightarrow> sublist x (join sep xs)"
proof (induction sep xs rule: join.induct)
  case (3 sep a b bs)
  show ?case
  proof (cases "x = a")
    case True
    then show ?thesis by simp
  next
    case False
    with 3 have "sublist x (join sep (b # bs))" by simp
    moreover have "sublist (join sep (b # bs)) ((a @ sep) @ join sep (b # bs))"
      by (rule sublist_append_leftI)
    ultimately have "sublist x ((a @ sep) @ join sep (b # bs))"
      by (rule sublist_order.order.trans)
    then show ?thesis by simp
  qed
qed simp_all

lemma sublist_in_line: "ps @ m @ ss \<in> set ls \<Longrightarrow> sublist m (join sep ls)"
  by (meson sublist_join sublist_appendI sublist_order.order.trans)

lemma sublist_nth_line:
  "i < length ls \<Longrightarrow> ls ! i = ps @ m @ ss \<Longrightarrow> sublist m (join sep ls)"
  by (metis nth_mem sublist_in_line)

section \<open>The example inputs\<close>

lemma api_get_host: "hostname_of (url api_get) = API_HOST"
  by (simp add: api_get_def REFRESH_URL_def API_HOST_def hostname_of_def scheme_of_def)

lemma api_post_host: "hostname_of (url api_post) = API_HOST"
  by (simp add: api_post_def REFRESH_URL_def API_HOST_def hostname_of_def scheme_of_def)

lemma page_get_host: "hostname_of (url page_get) \<noteq> API_HOST"
  by (simp add: page_get_def API_HOST_def hostname_of_def scheme_of_def)

lemma example_data_ok: "ok example_data"
  by (simp add: ok_def example_data_def)

lemma example_data_accepted: "\<not> put_rejected api_get example_data"
  by (simp add: put_rejected_def api_get_def REFRESH_URL_def scheme_of_def example_data_def
      vary_values_def lower_def lower_char_def)

lemma api_get_Request: "api_get = Request_of REFRESH_URL"
  by (simp add: api_get_def Request_of_def)

lemma names_differ: "CACHE_NAME \<noteq> API_CACHE_NAME"
  by (simp add: CACHE_NAME_def API_CACHE_NAME_def)

lemma used_world_api_hit: "cache_match API_CACHE_NAME api_get used_world = Some example_data"
  by (simp add: cache_match_def api_get_def used_world_def names_differ example_data_def
      CACHE_NAME_def API_CACHE_NAME_def)

lemma used_world_page_hit: "cache_match CACHE_NAME page_get used_world = Some example_page"
  by (simp add: cache_match_def page_get_def used_world_def example_page_def CACHE_NAME_def)

section \<open>The API policy\<close>

text \<open>
  C1 (as amended).  For a request whose URL hostname is the API host: if \<open>fetch\<close> resolves
  with an ok response and the partition accepts the pair (the request is a \<open>GET\<close> over
  http(s), the status is not 206 and \<open>Vary\<close> has no \<open>*\<close>), the listener answers with
  \<open>handleApiRequest\<close>, which stores a clone in the API partition under the key of the
  request, so that a lookup of the same request in the new state finds it, and resolves
  with the live response.
\<close>

theorem api_network_success:
  assumes "hostname_of (url request) = API_HOST"
    and "fetch net request = Resolved r" and "ok r" and "\<not> put_rejected request r"
  shows "on_fetch net request w = handleApiRequest net request w
       \<and> fst (on_fetch net request w) = Resolved r
       \<and> cache_match API_CACHE_NAME request (fst (snd (on_fetch net request w))) = Some r
       \<and> puts (snd (snd (on_fetch net request w))) = [(API_CACHE_NAME, url request, r)]"
proof -
  have route: "on_fetch net request w = handleApiRequest net request w"
    using assms(1) by (simp add: on_fetch_def)
  obtain w2 where put: "cache_put API_CACHE_NAME request r (caches_open API_CACHE_NAME w) = Inr w2"
    using assms(4) by (simp add: cache_put_def)
  have h: "handleApiRequest net request w =
      (Resolved r, w2, [CachesOpen API_CACHE_NAME, Fetch request, CachePut API_CACHE_NAME (url request) r])"
    using assms(2,3) put by (simp add: handleApiRequest_def clone_def)
  have "r\<lparr>guard := Immutable\<rparr> = r" using fetch_guard [OF assms(2)] by simp
  with cache_put_match [OF put] have "cache_match API_CACHE_NAME request w2 = Some r" by simp
  then show ?thesis by (simp add: route h puts_def)
qed

text \<open>A \<open>GET\<close> of the data endpoint, answered with a 200, in a fresh host.\<close>

theorem api_network_success_witness:
  "hostname_of (url api_get) = API_HOST
   \<and> fetch (online example_data) api_get = Resolved example_data
   \<and> ok example_data \<and> \<not> put_rejected api_get example_data
   \<and> fst (on_fetch (online example_data) api_get fresh_world) = Resolved example_data
   \<and> cache_match API_CACHE_NAME api_get
        (fst (snd (on_fetch (online example_data) api_get fresh_world))) = Some example_data"
proof -
  have f: "fetch (online example_data) api_get = Resolved example_data"
    by (simp add: fetch_def online_def example_data_def)
  from api_network_success [OF api_get_host f example_data_ok example_data_accepted, of fresh_world]
  show ?thesis using api_get_host f example_data_ok example_data_accepted by blast
qed

text \<open>A \<open>POST\<close> to the same URL, answered with the same 200: the partition refuses the
  pair, the \<open>catch\<close> block runs, and the page gets the synthesised 503 instead of the live
  response; nothing is stored.\<close>

theorem api_post_not_echoed:
  "hostname_of (url api_post) = API_HOST
   \<and> fetch (online example_data) api_post = Resolved example_data
   \<and> ok example_data
   \<and> fst (on_fetch (online example_data) api_post fresh_world) = Resolved api_error_response
   \<and> fst (on_fetch (online example_data) api_post fresh_world) \<noteq> Resolved example_data
   \<and> cache_match API_CACHE_NAME api_post
        (fst (snd (on_fetch (online example_data) api_post fresh_world))) = None"
proof -
  have f: "fetch (online example_data) api_post = Resolved example_data"
    by (simp add: fetch_def online_def example_data_def)
  have rej: "cache_put API_CACHE_NAME api_post example_data w = Inl (TypeError Put_unsupported)" for w
    by (simp add: cache_put_def put_rejected_def api_post_def)
  have m: "cache_match API_CACHE_NAME api_post w = None" for w
    by (simp add: cache_match_def api_post_def)
  have h: "on_fetch (online example_data) api_post fresh_world =
     (Resolved api_error_response, caches_open API_CACHE_NAME fresh_world,
      [CachesOpen API_CACHE_NAME, Fetch api_post,
       CachePut API_CACHE_NAME (url api_post) example_data,
       CacheMatch API_CACHE_NAME (url api_post)])"
    by (simp add: on_fetch_def api_post_host handleApiRequest_def f example_data_ok clone_def rej
        api_catch_def m)
  have d: "api_error_response \<noteq> example_data"
  proof
    assume "api_error_response = example_data"
    then have "status api_error_response = status example_data" by simp
    then show False by (simp add: api_error_response_def new_Response_def example_data_def)
  qed
  show ?thesis using api_post_host f example_data_ok d by (simp add: h m)
qed

text \<open>
  C3.  For a request to the API host whose \<open>fetch\<close> rejects while the API partition has
  a response for it: \<open>handleApiRequest\<close> clones the hit and appends \<open>X-Served-From:
  cache\<close> to the headers of the clone.  A response handed out by a cache has immutable
  headers and a clone keeps the guard, so the append throws inside the \<open>catch\<close> block:
  the handler rejects with that \<open>TypeError\<close> and returns no response at all.
\<close>

theorem api_offline_cached:
  assumes "hostname_of (url request) = API_HOST"
    and "net request = None" and "cache_match API_CACHE_NAME request w = Some cached"
  shows "on_fetch net request w = handleApiRequest net request w
       \<and> fst (on_fetch net request w) = Rejected (TypeError Headers_immutable)"
proof -
  from assms(3) have "guard cached = Immutable"
    by (auto simp: cache_match_def split: if_splits option.splits)
  then show ?thesis using assms
    by (simp add: on_fetch_def handleApiRequest_def fetch_def api_catch_def cache_match_open
        Headers_append_def clone_def)
qed

text \<open>The data endpoint while offline, with an earlier answer in the API partition.\<close>

theorem api_offline_cached_witness:
  "hostname_of (url api_get) = API_HOST \<and> offline api_get = None
   \<and> cache_match API_CACHE_NAME api_get used_world = Some example_data
   \<and> fst (on_fetch offline api_get used_world) = Rejected (TypeError Headers_immutable)"
proof -
  have n: "offline api_get = None" by (simp add: offline_def)
  from api_offline_cached [of api_get offline used_world example_data, OF api_get_host n used_world_api_hit]
  show ?thesis using api_get_host n used_world_api_hit by blast
qed

text \<open>
  C4 (as amended).  For a request to the API host whose \<open>fetch\<close> rejects while the API
  partition has no response for it, \<open>handleApiRequest\<close> resolves with the synthesised
  response: status 503, the two headers of line 108 and 109, and as body the JSON text of
  the fixed object.  Its field \<open>cached\<close> is \<open>false\<close>; its \<open>error\<close> is the text "Brak
  polaczenia internetowego" and its \<open>message\<close> the text "Nie mozna pobrac danych.
  Sprawdz polaczenie internetowe." (with their diacritics), both Polish; the body is
  the text written out below and nothing else.
\<close>

theorem api_offline_no_cache:
  assumes "hostname_of (url request) = API_HOST"
    and "net request = None" and "cache_match API_CACHE_NAME request w = None"
  shows "on_fetch net request w = handleApiRequest net request w
       \<and> fst (on_fetch net request w) = Resolved api_error_response
       \<and> status api_error_response = 503
       \<and> headers api_error_response =
           [(''Content-Type'', ''application/json''), (''X-Served-From'', ''error'')]
       \<and> JSON_stringify api_error_object = Some (body api_error_response)
       \<and> get_prop api_error_object ''cached'' = Inr (JBool False)
       \<and> sublist ([CHR 0x22] @ ''cached'' @ [CHR 0x22] @ '':false'') (body api_error_response)
       \<and> get_prop api_error_object ''error'' =
           Inr (JStr (''Brak po'' @ [CHR 0xC5, CHR 0x82, CHR 0xC4, CHR 0x85] @ ''czenia internetowego''))
       \<and> get_prop api_error_object ''message'' =
           Inr (JStr (''Nie mo'' @ [CHR 0xC5, CHR 0xBC] @ ''na pobra'' @ [CHR 0xC4, CHR 0x87] @ '' danych. Sprawd'' @ [CHR 0xC5, CHR 0xBA] @ '' po'' @ [CHR 0xC5, CHR 0x82, CHR 0xC4, CHR 0x85] @ ''czenie internetowe.''))
       \<and> body api_error_response =
           ''{'' @ [CHR 0x22] @ ''error'' @ [CHR 0x22] @ '':'' @ [CHR 0x22] @ ''Brak po'' @ [CHR 0xC5, CHR 0x82, CHR 0xC4, CHR 0x85] @ ''czenia internetowego'' @ [CHR 0x22] @ '',''
           @ [CHR 0x22] @ ''message'' @ [CHR 0x22] @ '':'' @ [CHR 0x22] @ ''Nie mo'' @ [CHR 0xC5, CHR 0xBC] @ ''na pobra'' @ [CHR 0xC4, CHR 0x87] @ '' danych. Sprawd'' @ [CHR 0xC5, CHR 0xBA] @ '' po'' @ [CHR 0xC5, CHR 0x82, CHR 0xC4, CHR 0x85] @ ''czenie internetowe.'' @ [CHR 0x22] @ '',''
           @ [CHR 0x22] @ ''cached'' @ [CHR 0x22] @ '':false}''"
proof -
  have route: "on_fetch net request w = handleApiRequest net request w"
    using assms(1) by (simp add: on_fetch_def)
  have "fst (handleApiRequest net request w) = Resolved api_error_response"
    using assms(2,3) by (simp add: handleApiRequest_def fetch_def api_catch_def cache_match_open)
  moreover have "status api_error_response = 503"
    by (simp add: api_error_response_def new_Response_def)
  moreover have "headers api_error_response =
           [(''Content-Type'', ''application/json''), (''X-Served-From'', ''error'')]"
    by (simp add: api_error_response_def new_Response_def has_header_def lower_def lower_char_def)
  moreover have "JSON_stringify api_error_object = Some (body api_error_response)"
    by (simp add: api_error_response_def new_Response_def api_error_object_def)
  moreover have "get_prop api_error_object ''cached'' = Inr (JBool False)"
    by (simp add: api_error_object_def)
  moreover have "sublist ([CHR 0x22] @ ''cached'' @ [CHR 0x22] @ '':false'') (body api_error_response)"
  proof -
    have q: "json_quote ''cached'' = [CHR 0x22] @ ''cached'' @ [CHR 0x22]"
      by (simp add: json_quote_def json_escape_def)
    have "sublist (json_quote ''cached'' @ '':'' @ ''false'')
            (join '','' (json_members (case api_error_object of JObj fs \<Rightarrow> fs | _ \<Rightarrow> [])))"
      by (rule sublist_join) (simp add: api_error_object_def)
    then have "sublist (json_quote ''cached'' @ '':'' @ ''false'')
            (''{'' @ join '','' (json_members (case api_error_object of JObj fs \<Rightarrow> fs | _ \<Rightarrow> [])) @ ''}'')"
      by (rule sublist_order.order.trans) (rule sublist_appendI)
    then show ?thesis
      by (simp add: q api_error_response_def new_Response_def api_error_object_def)
  qed
  moreover have "get_prop api_error_object ''error'' =
           Inr (JStr (''Brak po'' @ [CHR 0xC5, CHR 0x82, CHR 0xC4, CHR 0x85] @ ''czenia internetowego''))"
    by (simp add: api_error_object_def)
  moreover have "get_prop api_error_object ''message'' =
           Inr (JStr (''Nie mo'' @ [CHR 0xC5, CHR 0xBC] @ ''na pobra'' @ [CHR 0xC4, CHR 0x87] @ '' danych. Sprawd'' @ [CHR 0xC5, CHR 0xBA] @ '' po'' @ [CHR 0xC5, CHR 0x82, CHR 0xC4, CHR 0x85] @ ''czenie internetowe.''))"
    by (simp add: api_error_object_def)
  moreover have "body api_error_response =
           ''{'' @ [CHR 0x22] @ ''error'' @ [CHR 0x22] @ '':'' @ [CHR 0x22] @ ''Brak po'' @ [CHR 0xC5, CHR 0x82, CHR 0xC4, CHR 0x85] @ ''czenia internetowego'' @ [CHR 0x22] @ '',''
           @ [CHR 0x22] @ ''message'' @ [CHR 0x22] @ '':'' @ [CHR 0x22] @ ''Nie mo'' @ [CHR 0xC5, CHR 0xBC] @ ''na pobra'' @ [CHR 0xC4, CHR 0x87] @ '' danych. Sprawd'' @ [CHR 0xC5, CHR 0xBA] @ '' po'' @ [CHR 0xC5, CHR 0x82, CHR 0xC4, CHR 0x85] @ ''czenie internetowe.'' @ [CHR 0x22] @ '',''
           @ [CHR 0x22] @ ''cached'' @ [CHR 0x22] @ '':false}''"
    by (simp add: api_error_response_def new_Response_def api_error_object_def json_quote_def
        json_escape_def)
  ultimately show ?thesis by (simp only: route simp_thms)
qed

text \<open>The data endpoint while offline, in a fresh host.\<close>

theorem api_offline_no_cache_witness:
  "hostname_of (url api_get) = API_HOST \<and> offline api_get = None
   \<and> cache_match API_CACHE_NAME api_get fresh_world = None
   \<and> fst (on_fetch offline api_get fresh_world) = Resolved api_error_response
   \<and> status api_error_response = 503
   \<and> get_prop api_error_object ''cached'' = Inr (JBool False)
   \<and> get_prop api_error_object ''error'' =
       Inr (JStr (''Brak po'' @ [CHR 0xC5, CHR 0x82, CHR 0xC4, CHR 0x85] @ ''czenia internetowego''))
   \<and> get_prop api_error_object ''message'' =
       Inr (JStr (''Nie mo'' @ [CHR 0xC5, CHR 0xBC] @ ''na pobra'' @ [CHR 0xC4, CHR 0x87] @ '' danych. Sprawd'' @ [CHR 0xC5, CHR 0xBA] @ '' po'' @ [CHR 0xC5, CHR 0x82, CHR 0xC4, CHR 0x85] @ ''czenie internetowe.''))"
proof -
  have n: "offline api_get = None" by (simp add: offline_def)
  have m: "cache_match API_CACHE_NAME api_get fresh_world = None"
    by (simp add: cache_match_def fresh_world_def)
  from api_offline_no_cache [of api_get offline fresh_world, OF api_get_host n m]
  show ?thesis using api_get_host n m by blast
qed

text \<open>The same input, read against the wording "bilingual": the payload carries two
  texts and no more, the \<open>error\<close> and the \<open>message\<close> of line 100 and 101, and each is
  written in Polish alone.\<close>

theorem api_error_texts_polish_only:
  "fst (on_fetch offline api_get fresh_world) = Resolved api_error_response
   \<and> JSON_stringify api_error_object = Some (body api_error_response)
   \<and> object_texts api_error_object =
       [''Brak po'' @ [CHR 0xC5, CHR 0x82, CHR 0xC4, CHR 0x85] @ ''czenia internetowego'',
        ''Nie mo'' @ [CHR 0xC5, CHR 0xBC] @ ''na pobra'' @ [CHR 0xC4, CHR 0x87] @ '' danych. Sprawd'' @ [CHR 0xC5, CHR 0xBA] @ '' po'' @ [CHR 0xC5, CHR 0x82, CHR 0xC4, CHR 0x85] @ ''czenie internetowe.'']"
proof -
  have "fst (on_fetch offline api_get fresh_world) = Resolved api_error_response"
    by (simp add: on_fetch_def api_get_host handleApiRequest_def fetch_def offline_def
        api_catch_def cache_match_open)
       (simp add: cache_match_def fresh_world_def)
  moreover have "JSON_stringify api_error_object = Some (body api_error_response)"
    by (simp add: api_error_response_def new_Response_def api_error_object_def)
  moreover have "object_texts api_error_object =
       [''Brak po'' @ [CHR 0xC5, CHR 0x82, CHR 0xC4, CHR 0x85] @ ''czenia internetowego'',
        ''Nie mo'' @ [CHR 0xC5, CHR 0xBC] @ ''na pobra'' @ [CHR 0xC4, CHR 0x87] @ '' danych. Sprawd'' @ [CHR 0xC5, CHR 0xBA] @ '' po'' @ [CHR 0xC5, CHR 0x82, CHR 0xC4, CHR 0x85] @ ''czenie internetowe.'']"
    by (simp add: object_texts_def api_error_object_def)
  ultimately show ?thesis by (simp only: simp_thms)
qed

section \<open>The static-asset policy\<close>

text \<open>
  C2.  For a request that is not routed to the API host: if the static partition has a
  response for it, \<open>handleStaticRequest\<close> resolves with that response, leaves the host
  state as it is and makes no call of \<open>fetch\<close>.
\<close>

theorem static_cache_hit:
  assumes "hostname_of (url request) \<noteq> API_HOST"
    and "cache_match CACHE_NAME request w = Some cached"
  shows "on_fetch net request w = handleStaticRequest net request w
       \<and> on_fetch net request w =
           (Resolved cached, w, [CachesOpen CACHE_NAME, CacheMatch CACHE_NAME (url request)])
       \<and> fetches (snd (snd (on_fetch net request w))) = []"
  using assms cache_match_Some_open [OF assms(2)]
  by (simp add: on_fetch_def handleStaticRequest_def fetches_def)

text \<open>The page of the dashboard, held by the static partition.\<close>

theorem static_cache_hit_witness:
  "hostname_of (url page_get) \<noteq> API_HOST
   \<and> cache_match CACHE_NAME page_get used_world = Some example_page
   \<and> on_fetch offline page_get used_world =
       (Resolved example_page, used_world,
        [CachesOpen CACHE_NAME, CacheMatch CACHE_NAME (url page_get)])
   \<and> fetches (snd (snd (on_fetch offline page_get used_world))) = []"
  using static_cache_hit [OF page_get_host used_world_page_hit, of offline]
    page_get_host used_world_page_hit
  by blast

text \<open>
  C6.  For a request with destination \<open>document\<close> that misses the static partition and
  whose \<open>fetch\<close> rejects, \<open>handleStaticRequest\<close> resolves with a response whose body is
  the fixed offline page, which contains the title "PSE Dashboard - Offline", both
  headings and the reload button, and whose only header is \<open>Content-Type: text/html\<close>.
\<close>

theorem static_offline_document:
  assumes "destination request = ''document''"
    and "cache_match CACHE_NAME request w = None" and "net request = None"
  shows "fst (handleStaticRequest net request w) = Resolved (static_catch request)
       \<and> (hostname_of (url request) \<noteq> API_HOST \<longrightarrow>
            on_fetch net request w = handleStaticRequest net request w)
       \<and> body (static_catch request) = offline_page
       \<and> headers (static_catch request) = [(''Content-Type'', ''text/html'')]
       \<and> status (static_catch request) = 200
       \<and> sublist ''<title>PSE Dashboard - Offline</title>'' offline_page
       \<and> sublist ''PSE Dashboard</h1>'' offline_page
       \<and> sublist ''Tryb Offline</h2>'' offline_page
       \<and> sublist ''window.location.reload()'' offline_page"
proof -
  have 1: "fst (handleStaticRequest net request w) = Resolved (static_catch request)"
    using assms(2,3) by (simp add: handleStaticRequest_def cache_match_open fetch_def)
  have 2: "body (static_catch request) = offline_page
       \<and> headers (static_catch request) = [(''Content-Type'', ''text/html'')]
       \<and> status (static_catch request) = 200"
    using assms(1) by (simp add: static_catch_def new_Response_def has_header_def lower_def lower_char_def)
  have n: "length offline_lines = 42" by (simp add: offline_lines_def)
  have 3: "sublist ''<title>PSE Dashboard - Offline</title>'' offline_page"
    unfolding offline_page_def
    by (rule sublist_nth_line [where i = 6 and ps = "replicate 20 (CHR '' '')" and ss = "[]"])
       (simp_all add: n, simp add: offline_lines_def indent_def)
  have 4: "sublist ''PSE Dashboard</h1>'' offline_page"
    unfolding offline_page_def
    by (rule sublist_nth_line
          [where i = 35 and ss = "[]"
             and ps = "replicate 20 (CHR '' '') @ ''<h1>'' @ [CHR 0xF0, CHR 0x9F, CHR 0x93, CHR 0xB1] @ '' ''"])
       (simp_all add: n, simp add: offline_lines_def indent_def)
  have 5: "sublist ''Tryb Offline</h2>'' offline_page"
    unfolding offline_page_def
    by (rule sublist_nth_line
          [where i = 36 and ss = "[]"
             and ps = "replicate 20 (CHR '' '') @ ''<h2>'' @ [CHR 0xF0, CHR 0x9F, CHR 0x94, CHR 0x8C] @ '' ''"])
       (simp_all add: n, simp add: offline_lines_def indent_def)
  have 6: "sublist ''window.location.reload()'' offline_page"
    unfolding offline_page_def
    by (rule sublist_nth_line
          [where i = 38
             and ps = "replicate 20 (CHR '' '') @ ''<button onclick='' @ [CHR 0x22]"
             and ss = "[CHR 0x22] @ ''>'' @ [CHR 0xF0, CHR 0x9F, CHR 0x94, CHR 0x84] @ '' Spr''
                       @ [CHR 0xC3, CHR 0xB3] @ ''buj ponownie</button>''"])
       (simp_all add: n, simp add: offline_lines_def indent_def)
  show ?thesis using 1 2 3 4 5 6 by (simp add: on_fetch_def)
qed

text \<open>The page of the dashboard while offline, in a fresh host.\<close>

theorem static_offline_document_witness:
  "destination page_get = ''document''
   \<and> cache_match CACHE_NAME page_get fresh_world = None \<and> offline page_get = None
   \<and> fst (on_fetch offline page_get fresh_world) = Resolved (static_catch page_get)
   \<and> body (static_catch page_get) = offline_page
   \<and> sublist ''<title>PSE Dashboard - Offline</title>'' (body (static_catch page_get))"
proof -
  have d: "destination page_get = ''document''" by (simp add: page_get_def)
  have m: "cache_match CACHE_NAME page_get fresh_world = None"
    by (simp add: cache_match_def fresh_world_def)
  have n: "offline page_get = None" by (simp add: offline_def)
  from static_offline_document [of page_get fresh_world offline, OF d m n] page_get_host
  show ?thesis using d m n by simp
qed

section \<open>Activation\<close>

lemma delete_old_caches:
  "caches (fst (delete_old ns w)) =
     filter (\<lambda>p. fst p \<notin> set ns \<or> fst p = CACHE_NAME \<or> fst p = API_CACHE_NAME) (caches w)"
proof (induction ns arbitrary: w)
  case Nil
  show ?case by simp
next
  case (Cons n ns)
  show ?case
  proof (cases "n \<noteq> CACHE_NAME \<and> n \<noteq> API_CACHE_NAME")
    case True
    have "caches (fst (delete_old (n # ns) w)) = caches (fst (delete_old ns (caches_delete n w)))"
      using True by (simp add: split_def Let_def)
    also have "\<dots> = filter (\<lambda>p. fst p \<notin> set ns \<or> fst p = CACHE_NAME \<or> fst p = API_CACHE_NAME)
                       (caches (caches_delete n w))"
      by (rule Cons.IH)
    also have "\<dots> = filter (\<lambda>p. fst p \<notin> set (n # ns) \<or> fst p = CACHE_NAME \<or> fst p = API_CACHE_NAME)
                       (caches w)"
      using True by (auto simp: caches_delete_def intro: filter_cong)
    finally show ?thesis .
  next
    case False
    then have "caches (fst (delete_old (n # ns) w)) = caches (fst (delete_old ns w))"
      by auto
    also have "\<dots> = filter (\<lambda>p. fst p \<notin> set ns \<or> fst p = CACHE_NAME \<or> fst p = API_CACHE_NAME) (caches w)"
      by (rule Cons.IH)
    also have "\<dots> = filter (\<lambda>p. fst p \<notin> set (n # ns) \<or> fst p = CACHE_NAME \<or> fst p = API_CACHE_NAME)
                       (caches w)"
      using False by (auto intro: filter_cong)
    finally show ?thesis .
  qed
qed

lemma delete_old_trace:
  "snd (delete_old ns w) =
     map CachesDelete (filter (\<lambda>n. n \<noteq> CACHE_NAME \<and> n \<noteq> API_CACHE_NAME) ns)"
  by (induction ns arbitrary: w) (auto simp: split_def Let_def)

text \<open>
  C5.  After the activate listener: the partitions left are those of the two current
  names, unchanged and in their order; every other name that existed was deleted and is
  gone, so no name but the two remains; the last call claims the clients.
\<close>

theorem activate_deletes_old:
  assumes "on_activate w = (p, w', tr)"
  shows "p = Resolved ()
       \<and> caches w' = filter (\<lambda>c. fst c = CACHE_NAME \<or> fst c = API_CACHE_NAME) (caches w)
       \<and> (\<forall>n \<in> set (caches_keys w). n \<noteq> CACHE_NAME \<and> n \<noteq> API_CACHE_NAME \<longrightarrow>
              CachesDelete n \<in> set tr \<and> n \<notin> set (caches_keys w'))
       \<and> set (caches_keys w') \<subseteq> {CACHE_NAME, API_CACHE_NAME}
       \<and> last tr = ClientsClaim"
proof -
  from assms have p: "p = Resolved ()" and w': "w' = fst (delete_old (caches_keys w) w)"
    and tr: "tr = [CachesKeys] @ snd (delete_old (caches_keys w) w) @ [ClientsClaim]"
    by (auto simp: on_activate_def split_def Let_def)
  have c: "caches w' = filter (\<lambda>c. fst c = CACHE_NAME \<or> fst c = API_CACHE_NAME) (caches w)"
    unfolding w' delete_old_caches by (rule filter_cong) (auto simp: caches_keys_def)
  have k: "set (caches_keys w') \<subseteq> {CACHE_NAME, API_CACHE_NAME}"
    by (auto simp: caches_keys_def c)
  have d: "\<forall>n \<in> set (caches_keys w). n \<noteq> CACHE_NAME \<and> n \<noteq> API_CACHE_NAME \<longrightarrow>
              CachesDelete n \<in> set tr \<and> n \<notin> set (caches_keys w')"
    using k by (auto simp: tr delete_old_trace)
  show ?thesis using p c k d by (simp add: tr)
qed

text \<open>A host with a partition of an older version beside the two current ones.\<close>

theorem activate_deletes_old_witness:
  "on_activate used_world =
     (Resolved (),
      used_world\<lparr>caches := [(CACHE_NAME, [(''https://dashboard.example/index.html'', example_page)]),
                            (API_CACHE_NAME, [(REFRESH_URL, example_data)])]\<rparr>,
      [CachesKeys, CachesDelete ''pse-dashboard-v0'', ClientsClaim])
   \<and> set (caches_keys (fst (snd (on_activate used_world)))) \<subseteq> {CACHE_NAME, API_CACHE_NAME}"
proof -
  have e: "on_activate used_world =
     (Resolved (),
      used_world\<lparr>caches := [(CACHE_NAME, [(''https://dashboard.example/index.html'', example_page)]),
                            (API_CACHE_NAME, [(REFRESH_URL, example_data)])]\<rparr>,
      [CachesKeys, CachesDelete ''pse-dashboard-v0'', ClientsClaim])"
    by (simp add: on_activate_def caches_keys_def used_world_def caches_delete_def
        CACHE_NAME_def API_CACHE_NAME_def)
  from activate_deletes_old [OF e]
  have "set (caches_keys (used_world\<lparr>caches := [(CACHE_NAME, [(''https://dashboard.example/index.html'', example_page)]),
                            (API_CACHE_NAME, [(REFRESH_URL, example_data)])]\<rparr>)) \<subseteq> {CACHE_NAME, API_CACHE_NAME}"
    by blast
  then show ?thesis unfolding e by simp
qed

section \<open>The background refresh\<close>

text \<open>
  C7 (as amended).  On a sync event tagged \<open>refresh-data\<close> the listener resolves after
  exactly one \<open>fetch\<close>, of the fixed endpoint.  If it resolves with an ok response that
  the partition accepts (status not 206, no \<open>*\<close> in \<open>Vary\<close>), a clone is stored in the
  API partition under the fixed key and the message of type \<open>DATA_UPDATED\<close> is posted to
  every client page.  If the network fails, the state is as before, nothing is stored and
  nothing is posted.
\<close>

theorem sync_refresh:
  assumes "on_sync net ''refresh-data'' w = (p, w', tr)"
  shows "p = Resolved ()
       \<and> fetches tr = [Request_of REFRESH_URL]
       \<and> (\<forall>r. fetch net (Request_of REFRESH_URL) = Resolved r \<and> ok r
               \<and> \<not> put_rejected (Request_of REFRESH_URL) r \<longrightarrow>
              cache_match API_CACHE_NAME (Request_of REFRESH_URL) w' = Some r
            \<and> puts tr = [(API_CACHE_NAME, REFRESH_URL, r)]
            \<and> posts tr = map (\<lambda>c. (c, DATA_UPDATED)) (clients w))
       \<and> get_prop DATA_UPDATED ''type'' = Inr (JStr ''DATA_UPDATED'')
       \<and> (net (Request_of REFRESH_URL) = None \<longrightarrow> w' = w \<and> puts tr = [] \<and> posts tr = [])"
proof -
  let ?req = "Request_of REFRESH_URL"
  from assms have h: "refreshDataInBackground net w = (p, w', tr)"
    by (simp add: on_sync_def)
  have msg: "get_prop DATA_UPDATED ''type'' = Inr (JStr ''DATA_UPDATED'')"
    by (simp add: DATA_UPDATED_def)
  show ?thesis
  proof (cases "fetch net ?req")
    case (Rejected e)
    with h msg show ?thesis
      by (auto simp: refreshDataInBackground_def Let_def fetches_def puts_def posts_def)
  next
    case (Resolved r)
    then have net: "net ?req \<noteq> None" by (auto simp: fetch_def split: option.splits)
    show ?thesis
    proof (cases "ok r")
      case False
      with h msg Resolved net show ?thesis
        by (auto simp: refreshDataInBackground_def Let_def fetches_def)
    next
      case True
      show ?thesis
      proof (cases "cache_put API_CACHE_NAME ?req r (caches_open API_CACHE_NAME w)")
        case (Inl e)
        then have "put_rejected ?req r" by (rule cache_put_Inl)
        with h msg Resolved net True Inl show ?thesis
          by (auto simp: refreshDataInBackground_def Let_def fetches_def clone_def)
      next
        case (Inr w2)
        have "r\<lparr>guard := Immutable\<rparr> = r" using fetch_guard [OF Resolved] by simp
        with cache_put_match [OF Inr] have m: "cache_match API_CACHE_NAME ?req w2 = Some r" by simp
        have c: "clients w2 = clients w"
          using Inr by (auto simp: cache_put_Inr caches_open_def split: option.splits)
        from h Resolved True Inr have "p = Resolved ()" "w' = w2"
          and tr: "tr = [Fetch ?req, CachesOpen API_CACHE_NAME, CachePut API_CACHE_NAME REFRESH_URL r,
                         ClientsMatchAll] @ map (\<lambda>client. PostMessage client DATA_UPDATED) (clients w)"
          by (auto simp: refreshDataInBackground_def Let_def clone_def c)
        moreover have "fetches tr = [?req]" "puts tr = [(API_CACHE_NAME, REFRESH_URL, r)]"
          "posts tr = map (\<lambda>c. (c, DATA_UPDATED)) (clients w)"
          unfolding tr fetches_append puts_append posts_append fetches_map puts_map posts_map
          by (simp_all add: fetches_def puts_def posts_def)
        ultimately show ?thesis using m msg net Resolved by auto
      qed
    qed
  qed
qed

text \<open>A refresh answered with a 200, and one while offline, with two client pages.\<close>

theorem sync_refresh_witness:
  "fetch (online example_data) (Request_of REFRESH_URL) = Resolved example_data
   \<and> ok example_data \<and> \<not> put_rejected (Request_of REFRESH_URL) example_data
   \<and> fetches (snd (snd (on_sync (online example_data) ''refresh-data'' fresh_world)))
       = [Request_of REFRESH_URL]
   \<and> cache_match API_CACHE_NAME (Request_of REFRESH_URL)
        (fst (snd (on_sync (online example_data) ''refresh-data'' fresh_world))) = Some example_data
   \<and> posts (snd (snd (on_sync (online example_data) ''refresh-data'' fresh_world)))
       = [(1, DATA_UPDATED), (2, DATA_UPDATED)]
   \<and> offline (Request_of REFRESH_URL) = None
   \<and> on_sync offline ''refresh-data'' fresh_world
       = (Resolved (), fresh_world, [Fetch (Request_of REFRESH_URL)])"
proof -
  have f: "fetch (online example_data) (Request_of REFRESH_URL) = Resolved example_data"
    by (simp add: fetch_def online_def example_data_def)
  have a: "\<not> put_rejected (Request_of REFRESH_URL) example_data"
    using example_data_accepted by (simp add: api_get_Request)
  have n: "offline (Request_of REFRESH_URL) = None" by (simp add: offline_def)
  have c: "clients fresh_world = [1, 2]" by (simp add: fresh_world_def)
  obtain p w' tr where on: "on_sync (online example_data) ''refresh-data'' fresh_world = (p, w', tr)"
    by (rule prod_cases3)
  obtain q v' tr' where off: "on_sync offline ''refresh-data'' fresh_world = (q, v', tr')"
    by (rule prod_cases3)
  from sync_refresh [OF on] f example_data_ok a c
  have 1: "fetches tr = [Request_of REFRESH_URL]
     \<and> cache_match API_CACHE_NAME (Request_of REFRESH_URL) w' = Some example_data
     \<and> posts tr = [(1, DATA_UPDATED), (2, DATA_UPDATED)]"
    by simp
  from sync_refresh [OF off] n
  have 2: "q = Resolved () \<and> v' = fresh_world \<and> fetches tr' = [Request_of REFRESH_URL]"
    by simp
  have 3: "tr' = [Fetch (Request_of REFRESH_URL)]"
    using off by (simp add: on_sync_def refreshDataInBackground_def fetch_def n)
  show ?thesis using f example_data_ok a n 1 2 3 by (simp add: on off)
qed

text \<open>A refresh answered with a 200 that carries \<open>Vary: *\<close>: the partition refuses it,
  so nothing is stored and neither of the two client pages gets a message.\<close>

theorem sync_refresh_vary_star:
  "fetch (online example_vary_star) (Request_of REFRESH_URL) = Resolved example_vary_star
   \<and> ok example_vary_star
   \<and> clients fresh_world = [1, 2]
   \<and> posts (snd (snd (on_sync (online example_vary_star) ''refresh-data'' fresh_world))) = []
   \<and> cache_match API_CACHE_NAME (Request_of REFRESH_URL)
        (fst (snd (on_sync (online example_vary_star) ''refresh-data'' fresh_world))) = None"
proof -
  have f: "fetch (online example_vary_star) (Request_of REFRESH_URL) = Resolved example_vary_star"
    by (simp add: fetch_def online_def example_vary_star_def)
  have k: "ok example_vary_star" by (simp add: ok_def example_vary_star_def)
  have v: "vary_values example_vary_star = [''*'']"
    by (simp add: vary_values_def example_vary_star_def lower_def lower_char_def trim_def is_space_def)
  have rej: "cache_put API_CACHE_NAME (Request_of REFRESH_URL) example_vary_star w
               = Inl (TypeError Put_unsupported)" for w
    by (simp add: cache_put_def put_rejected_def v)
  have h: "on_sync (online example_vary_star) ''refresh-data'' fresh_world =
     (Resolved (), caches_open API_CACHE_NAME fresh_world,
      [Fetch (Request_of REFRESH_URL), CachesOpen API_CACHE_NAME,
       CachePut API_CACHE_NAME REFRESH_URL example_vary_star])"
    by (simp add: on_sync_def refreshDataInBackground_def f k clone_def rej)
  have m: "cache_match API_CACHE_NAME (Request_of REFRESH_URL) (caches_open API_CACHE_NAME fresh_world) = None"
    by (simp add: cache_match_open) (simp add: cache_match_def fresh_world_def)
  have c: "clients fresh_world = [1, 2]" by (simp add: fresh_world_def)
  show ?thesis using f k m c by (simp add: h posts_def)
qed

section \<open>Notification clicks\<close>

text \<open>
  C8 (as amended).  The notification is closed first.  When the action is \<open>open\<close> or
  empty and the data of the notification can be read, one window is opened: to its \<open>url\<close>
  when that is truthy, to \<open>/\<close> otherwise.  For every other action, \<open>close\<close> among
  them, no window is opened.
\<close>

theorem notificationclick_opens:
  assumes "on_notificationclick event = (p, tr)"
  shows "hd tr = NotificationClose
       \<and> (\<forall>u. (action event = ''open'' \<or> action event = [])
               \<and> get_prop (notification_data event) ''url'' = Inr u \<longrightarrow>
               windows tr = [if truthy u then u else JStr ''/''])
       \<and> (action event \<noteq> ''open'' \<and> action event \<noteq> [] \<longrightarrow> windows tr = [])"
  using assms
  by (auto simp: on_notificationclick_def windows_def split: if_splits sum.splits)

text \<open>A click on the body of a notification, on \<open>open\<close> without a URL, and on
  \<open>close\<close>.\<close>

theorem notificationclick_opens_witness:
  "on_notificationclick click_body = (Resolved (), [NotificationClose, OpenWindow (JStr ''/alerts'')])
   \<and> windows (snd (on_notificationclick click_body)) = [JStr ''/alerts'']
   \<and> on_notificationclick click_open_no_url = (Resolved (), [NotificationClose, OpenWindow (JStr ''/'')])
   \<and> windows (snd (on_notificationclick click_open_no_url)) = [JStr ''/'']
   \<and> on_notificationclick click_close = (Resolved (), [NotificationClose])
   \<and> windows (snd (on_notificationclick click_close)) = []"
proof -
  have b: "on_notificationclick click_body = (Resolved (), [NotificationClose, OpenWindow (JStr ''/alerts'')])"
    by (simp add: on_notificationclick_def click_body_def)
  have o: "on_notificationclick click_open_no_url = (Resolved (), [NotificationClose, OpenWindow (JStr ''/'')])"
    by (simp add: on_notificationclick_def click_open_no_url_def)
  have c: "on_notificationclick click_close = (Resolved (), [NotificationClose])"
    by (simp add: on_notificationclick_def click_close_def)
  from notificationclick_opens [OF b]
  have 1: "windows [NotificationClose, OpenWindow (JStr ''/alerts'')] = [JStr ''/alerts'']"
    by (simp add: click_body_def)
  from notificationclick_opens [OF o]
  have 2: "windows [NotificationClose, OpenWindow (JStr ''/'')] = [JStr ''/'']"
    by (simp add: click_open_no_url_def)
  from notificationclick_opens [OF c]
  have 3: "windows [NotificationClose] = []"
    by (simp add: click_close_def)
  show ?thesis using 1 2 3 by (simp add: b o c)
qed

text \<open>A click on an action named \<open>dismiss\<close>: it is not \<open>close\<close>, and no window is
  opened.\<close>

theorem notificationclick_dismiss:
  "action click_dismiss \<noteq> ''close''
   \<and> on_notificationclick click_dismiss = (Resolved (), [NotificationClose])
   \<and> windows (snd (on_notificationclick click_dismiss)) = []"
  by (simp add: on_notificationclick_def click_dismiss_def windows_def)

section \<open>Messages from the page\<close>

text \<open>
  C9.  A message whose data has type \<open>SKIP_WAITING\<close> makes the listener call
  \<open>skipWaiting\<close> and nothing else, which activates a waiting worker.  A message of any
  other type does not call it and leaves the host state alone; the other recognised type,
  \<open>REQUEST_UPDATE\<close>, only registers the sync.
\<close>

theorem message_skip_waiting:
  "(get_prop d ''type'' = Inr (JStr ''SKIP_WAITING'') \<longrightarrow>
       on_message d w = (skipWaiting w, [SkipWaiting])
     \<and> (lifecycle w = Waiting \<longrightarrow> lifecycle (fst (on_message d w)) = Active))
   \<and> (get_prop d ''type'' \<noteq> Inr (JStr ''SKIP_WAITING'') \<longrightarrow>
       fst (on_message d w) = w \<and> SkipWaiting \<notin> set (snd (on_message d w)))
   \<and> (get_prop d ''type'' = Inr (JStr ''REQUEST_UPDATE'') \<longrightarrow>
       on_message d w = (w, [SyncRegister ''refresh-data'']))"
proof -
  have t: "get_prop d ''type'' = Inr (JStr s) \<Longrightarrow> truthy d" for s
    by (cases d) auto
  show ?thesis
    by (auto simp: on_message_def data_type_is_def skipWaiting_def t)
qed

text \<open>The two recognised messages, sent to a waiting worker.\<close>

theorem message_skip_waiting_witness:
  "get_prop (JObj [(''type'', JStr ''SKIP_WAITING'')]) ''type'' = Inr (JStr ''SKIP_WAITING'')
   \<and> lifecycle fresh_world = Waiting
   \<and> lifecycle (fst (on_message (JObj [(''type'', JStr ''SKIP_WAITING'')]) fresh_world)) = Active
   \<and> snd (on_message (JObj [(''type'', JStr ''SKIP_WAITING'')]) fresh_world) = [SkipWaiting]
   \<and> get_prop (JObj [(''type'', JStr ''REQUEST_UPDATE'')]) ''type'' = Inr (JStr ''REQUEST_UPDATE'')
   \<and> get_prop (JObj [(''type'', JStr ''REQUEST_UPDATE'')]) ''type'' \<noteq> Inr (JStr ''SKIP_WAITING'')
   \<and> on_message (JObj [(''type'', JStr ''REQUEST_UPDATE'')]) fresh_world
       = (fresh_world, [SyncRegister ''refresh-data''])"
proof -
  have s: "get_prop (JObj [(''type'', JStr ''SKIP_WAITING'')]) ''type'' = Inr (JStr ''SKIP_WAITING'')"
    by simp
  have r: "get_prop (JObj [(''type'', JStr ''REQUEST_UPDATE'')]) ''type'' = Inr (JStr ''REQUEST_UPDATE'')"
    by simp
  have l: "lifecycle fresh_world = Waiting" by (simp add: fresh_world_def)
  from message_skip_waiting [of "JObj [(''type'', JStr ''SKIP_WAITING'')]" fresh_world] s l
  have 1: "lifecycle (fst (on_message (JObj [(''type'', JStr ''SKIP_WAITING'')]) fresh_world)) = Active
      \<and> snd (on_message (JObj [(''type'', JStr ''SKIP_WAITING'')]) fresh_world) = [SkipWaiting]"
    by auto
  from message_skip_waiting [of "JObj [(''type'', JStr ''REQUEST_UPDATE'')]" fresh_world] r
  have 2: "on_message (JObj [(''type'', JStr ''REQUEST_UPDATE'')]) fresh_world
       = (fresh_world, [SyncRegister ''refresh-data''])"
    by auto
  show ?thesis using s r l 1 2 by simp
qed

section \<open>Only ok responses are stored\<close>

lemma handleApiRequest_stores:
  assumes "handleApiRequest net request w = (p, w', tr)"
  shows "(\<forall>e \<in> set (puts tr). ok (snd (snd e)))
       \<and> (\<forall>e \<in> set (cache_entries w'). e \<in> set (cache_entries w) \<or> ok (snd (snd e)))
       \<and> (\<forall>r. fetch net request = Resolved r \<and> \<not> ok r \<longrightarrow>
              p = Resolved r \<and> puts tr = [] \<and> cache_entries w' = cache_entries w)"
proof (cases "fetch net request")
  case (Rejected e)
  with assms show ?thesis
    by (auto simp: handleApiRequest_def Let_def puts_def cache_entries_open)
next
  case (Resolved r)
  show ?thesis
  proof (cases "ok r")
    case False
    with assms Resolved show ?thesis
      by (auto simp: handleApiRequest_def Let_def puts_def cache_entries_open)
  next
    case True
    show ?thesis
    proof (cases "cache_put API_CACHE_NAME request r (caches_open API_CACHE_NAME w)")
      case (Inl e)
      with assms Resolved True show ?thesis
        by (auto simp: handleApiRequest_def Let_def puts_def cache_entries_open clone_def)
    next
      case (Inr w2)
      from cache_entries_put [OF Inr]
      have "set (cache_entries w2) \<subseteq> insert (API_CACHE_NAME, url request, r) (set (cache_entries w))"
        by (simp add: cache_entries_open)
      with assms Resolved True Inr show ?thesis
        by (auto simp: handleApiRequest_def Let_def puts_def clone_def)
    qed
  qed
qed

lemma handleStaticRequest_stores:
  assumes "handleStaticRequest net request w = (p, w', tr)"
  shows "(\<forall>e \<in> set (puts tr). ok (snd (snd e)))
       \<and> (\<forall>e \<in> set (cache_entries w'). e \<in> set (cache_entries w) \<or> ok (snd (snd e)))
       \<and> (\<forall>r. fetch net request = Resolved r \<and> \<not> ok r \<and> Fetch request \<in> set tr \<longrightarrow>
              p = Resolved r \<and> puts tr = [] \<and> cache_entries w' = cache_entries w)"
proof (cases "cache_match CACHE_NAME request w")
  case (Some c)
  with assms show ?thesis
    by (auto simp: handleStaticRequest_def Let_def puts_def cache_entries_open cache_match_open)
next
  case None
  show ?thesis
  proof (cases "fetch net request")
    case (Rejected e)
    with assms None show ?thesis
      by (auto simp: handleStaticRequest_def Let_def puts_def cache_entries_open cache_match_open)
  next
    case (Resolved r)
    show ?thesis
    proof (cases "ok r")
      case False
      with assms None Resolved show ?thesis
        by (auto simp: handleStaticRequest_def Let_def puts_def cache_entries_open cache_match_open)
    next
      case True
      show ?thesis
      proof (cases "cache_put CACHE_NAME request r (caches_open CACHE_NAME w)")
        case (Inl e)
        with assms None Resolved True show ?thesis
          by (auto simp: handleStaticRequest_def Let_def puts_def cache_entries_open cache_match_open clone_def)
      next
        case (Inr w2)
        from cache_entries_put [OF Inr]
        have "set (cache_entries w2) \<subseteq> insert (CACHE_NAME, url request, r) (set (cache_entries w))"
          by (simp add: cache_entries_open)
        with assms None Resolved True Inr show ?thesis
          by (auto simp: handleStaticRequest_def Let_def puts_def cache_match_open clone_def)
      qed
    qed
  qed
qed

lemma refresh_stores:
  assumes "refreshDataInBackground net w = (p, w', tr)"
  shows "(\<forall>e \<in> set (puts tr). ok (snd (snd e)))
       \<and> (\<forall>e \<in> set (cache_entries w'). e \<in> set (cache_entries w) \<or> ok (snd (snd e)))
       \<and> (\<forall>r. fetch net (Request_of REFRESH_URL) = Resolved r \<and> \<not> ok r \<longrightarrow>
              puts tr = [] \<and> cache_entries w' = cache_entries w)"
proof (cases "fetch net (Request_of REFRESH_URL)")
  case (Rejected e)
  with assms show ?thesis
    by (auto simp: refreshDataInBackground_def Let_def puts_def)
next
  case (Resolved r)
  show ?thesis
  proof (cases "ok r")
    case False
    with assms Resolved show ?thesis
      by (auto simp: refreshDataInBackground_def Let_def puts_def)
  next
    case True
    show ?thesis
    proof (cases "cache_put API_CACHE_NAME (Request_of REFRESH_URL) r (caches_open API_CACHE_NAME w)")
      case (Inl e)
      with assms Resolved True show ?thesis
        by (auto simp: refreshDataInBackground_def Let_def puts_def cache_entries_open clone_def)
    next
      case (Inr w2)
      from cache_entries_put [OF Inr]
      have "set (cache_entries w2) \<subseteq> insert (API_CACHE_NAME, REFRESH_URL, r) (set (cache_entries w))"
        by (simp add: cache_entries_open Request_of_def)
      moreover have "puts (map (\<lambda>client. PostMessage client DATA_UPDATED) cs) = []" for cs
        by (induction cs) (simp_all add: puts_def)
      ultimately show ?thesis using assms Resolved True Inr
        by (auto simp: refreshDataInBackground_def Let_def puts_def clone_def)
    qed
  qed
qed

lemma on_fetch_stores:
  assumes "on_fetch net request w = (p, w', tr)"
  shows "(\<forall>e \<in> set (puts tr). ok (snd (snd e)))
    \<and> (\<forall>e \<in> set (cache_entries w'). e \<in> set (cache_entries w) \<or> ok (snd (snd e)))
    \<and> (all_ok w \<longrightarrow> all_ok w' \<and> (\<forall>n q c. cache_match n q w' = Some c \<longrightarrow> ok c))
    \<and> (\<forall>r. fetch net request = Resolved r \<and> \<not> ok r \<and> Fetch request \<in> set tr \<longrightarrow>
          p = Resolved r \<and> puts tr = [] \<and> cache_entries w' = cache_entries w)"
proof (cases "hostname_of (url request) = API_HOST")
  case True
  with assms have "handleApiRequest net request w = (p, w', tr)"
    by (simp add: on_fetch_def)
  from handleApiRequest_stores [OF this] entries_invariant [of w' w]
  show ?thesis by blast
next
  case False
  with assms have "handleStaticRequest net request w = (p, w', tr)"
    by (simp add: on_fetch_def)
  from handleStaticRequest_stores [OF this] entries_invariant [of w' w]
  show ?thesis by blast
qed

lemma on_sync_stores:
  assumes "on_sync net tag w = (p, w', tr)"
  shows "(\<forall>e \<in> set (puts tr). ok (snd (snd e)))
    \<and> (\<forall>e \<in> set (cache_entries w'). e \<in> set (cache_entries w) \<or> ok (snd (snd e)))
    \<and> (all_ok w \<longrightarrow> all_ok w' \<and> (\<forall>n q c. cache_match n q w' = Some c \<longrightarrow> ok c))
    \<and> (\<forall>r. fetch net (Request_of REFRESH_URL) = Resolved r \<and> \<not> ok r \<longrightarrow>
          puts tr = [] \<and> cache_entries w' = cache_entries w)"
proof (cases "tag = ''refresh-data''")
  case True
  with assms have "refreshDataInBackground net w = (p, w', tr)"
    by (simp add: on_sync_def)
  from refresh_stores [OF this] entries_invariant [of w' w]
  show ?thesis by blast
next
  case False
  with assms have "w' = w" "tr = []" by (simp_all add: on_sync_def)
  with entries_invariant [of w w] show ?thesis by (simp add: puts_def)
qed

text \<open>
  C10.  For the fetch listener and for the sync listener: every response given to
  \<open>cache.put\<close> is ok; every entry of a partition afterwards was there before or is ok,
  so if all entries were ok before, all are ok after and every later hit is ok; a network
  response that is not ok is what the fetch listener resolves with, and then nothing is
  put and the entries are as before.
\<close>

theorem only_ok_responses_stored:
  "(on_fetch net request w = (p, w', tr) \<longrightarrow>
      (\<forall>e \<in> set (puts tr). ok (snd (snd e)))
    \<and> (\<forall>e \<in> set (cache_entries w'). e \<in> set (cache_entries w) \<or> ok (snd (snd e)))
    \<and> (all_ok w \<longrightarrow> all_ok w' \<and> (\<forall>n q c. cache_match n q w' = Some c \<longrightarrow> ok c))
    \<and> (\<forall>r. fetch net request = Resolved r \<and> \<not> ok r \<and> Fetch request \<in> set tr \<longrightarrow>
          p = Resolved r \<and> puts tr = [] \<and> cache_entries w' = cache_entries w))
 \<and> (on_sync net tag w = (p2, w2, tr2) \<longrightarrow>
      (\<forall>e \<in> set (puts tr2). ok (snd (snd e)))
    \<and> (\<forall>e \<in> set (cache_entries w2). e \<in> set (cache_entries w) \<or> ok (snd (snd e)))
    \<and> (all_ok w \<longrightarrow> all_ok w2 \<and> (\<forall>n q c. cache_match n q w2 = Some c \<longrightarrow> ok c))
    \<and> (\<forall>r. fetch net (Request_of REFRESH_URL) = Resolved r \<and> \<not> ok r \<longrightarrow>
          puts tr2 = [] \<and> cache_entries w2 = cache_entries w))"
proof (rule conjI; rule impI)
  assume "on_fetch net request w = (p, w', tr)"
  then show "(\<forall>e \<in> set (puts tr). ok (snd (snd e)))
    \<and> (\<forall>e \<in> set (cache_entries w'). e \<in> set (cache_entries w) \<or> ok (snd (snd e)))
    \<and> (all_ok w \<longrightarrow> all_ok w' \<and> (\<forall>n q c. cache_match n q w' = Some c \<longrightarrow> ok c))
    \<and> (\<forall>r. fetch net request = Resolved r \<and> \<not> ok r \<and> Fetch request \<in> set tr \<longrightarrow>
          p = Resolved r \<and> puts tr = [] \<and> cache_entries w' = cache_entries w)"
    by (rule on_fetch_stores)
next
  assume "on_sync net tag w = (p2, w2, tr2)"
  then show "(\<forall>e \<in> set (puts tr2). ok (snd (snd e)))
    \<and> (\<forall>e \<in> set (cache_entries w2). e \<in> set (cache_entries w) \<or> ok (snd (snd e)))
    \<and> (all_ok w \<longrightarrow> all_ok w2 \<and> (\<forall>n q c. cache_match n q w2 = Some c \<longrightarrow> ok c))
    \<and> (\<forall>r. fetch net (Request_of REFRESH_URL) = Resolved r \<and> \<not> ok r \<longrightarrow>
          puts tr2 = [] \<and> cache_entries w2 = cache_entries w)"
    by (rule on_sync_stores)
qed

text \<open>The data endpoint answering 404, to the page and to the background refresh.\<close>

theorem only_ok_responses_stored_witness:
  "fetch (online example_not_found) api_get = Resolved example_not_found
   \<and> \<not> ok example_not_found
   \<and> on_fetch (online example_not_found) api_get used_world
       = (Resolved example_not_found, used_world, [CachesOpen API_CACHE_NAME, Fetch api_get])
   \<and> all_ok used_world
   \<and> all_ok (fst (snd (on_fetch (online example_not_found) api_get used_world)))
   \<and> puts (snd (snd (on_fetch (online example_not_found) api_get used_world))) = []
   \<and> all_ok (fst (snd (on_sync (online example_not_found) ''refresh-data'' used_world)))
   \<and> puts (snd (snd (on_sync (online example_not_found) ''refresh-data'' used_world))) = []"
proof -
  have f: "fetch (online example_not_found) req = Resolved example_not_found" for req
    by (simp add: fetch_def online_def example_not_found_def)
  have k: "\<not> ok example_not_found" by (simp add: ok_def example_not_found_def)
  have a: "all_ok used_world"
    by (simp add: all_ok_def cache_entries_def used_world_def ok_def example_page_def example_data_def)
  have o: "caches_open API_CACHE_NAME used_world = used_world"
    by (rule cache_match_Some_open) (rule used_world_api_hit)
  have e: "on_fetch (online example_not_found) api_get used_world
       = (Resolved example_not_found, used_world, [CachesOpen API_CACHE_NAME, Fetch api_get])"
    by (simp add: on_fetch_def api_get_host handleApiRequest_def f k o)
  obtain q v tr where s: "on_sync (online example_not_found) ''refresh-data'' used_world = (q, v, tr)"
    by (rule prod_cases3)
  from only_ok_responses_stored [of "online example_not_found" api_get used_world
      "Resolved example_not_found" used_world "[CachesOpen API_CACHE_NAME, Fetch api_get]"
      "''refresh-data''" q v tr] e s a f k
  have "puts [CachesOpen API_CACHE_NAME, Fetch api_get] = [] \<and> all_ok v \<and> puts tr = []"
    by simp
  then show ?thesis using f k a e s by simp
qed

end
